theory Spec2Isabelle
  imports Main
begin

section \<open>Python values, errors and namespaces\<close>

text \<open>
  The launcher \<^verbatim>\<open>image_misgan_impute.py\<close> works on an \<^verbatim>\<open>argparse.Namespace\<close>, whose
  attributes hold dynamically typed values. The float type is a parameter \<open>'f\<close>: the
  script never computes with a float, it only compares one with zero and prints it.
\<close>

datatype 'f pyval = PNone | PBool bool | PInt int | PFloat 'f | PStr string

datatype pyerr =
    NameError string
  | AttributeError string
  | KeyError string
  | NotImplementedError
  | AssertionError
  | TypeError
  | ValueError
  | OverflowError
  | UnboundLocalError string
  | LoadError

type_synonym 'f namespace = "string \<Rightarrow> 'f pyval option"

definition getattr :: "'f namespace \<Rightarrow> string \<Rightarrow> pyerr + 'f pyval" where
  "getattr args key = (case args key of None \<Rightarrow> Inl (AttributeError key) | Some v \<Rightarrow> Inr v)"

definition setattr :: "'f namespace \<Rightarrow> string \<Rightarrow> 'f pyval \<Rightarrow> 'f namespace" where
  "setattr args key arg = args(key \<mapsto> arg)"

section \<open>The resume loop (lines 73 to 75)\<close>

text \<open>
  \<^verbatim>\<open>for key, arg in vars(checkpoint['args']).items():
      if key not in ['resume']:
          setattr(args, key, arg)\<close>
\<close>

fun apply_saved_args :: "'f namespace \<Rightarrow> (string \<times> 'f pyval) list \<Rightarrow> 'f namespace" where
  "apply_saved_args args [] = args"
| "apply_saved_args args ((key, arg) # items) =
     apply_saved_args (if key \<notin> set [''resume''] then setattr args key arg else args) items"

section \<open>Built-in operations of Python on these values\<close>

text \<open>
  What Python does with a float is not code of this repository: whether a float is zero,
  its \<^verbatim>\<open>'g'\<close> presentation, the \<^verbatim>\<open>'g'\<close> presentation of an integer (which goes through a
  float: \<open>None\<close> for an integer too large for one, where Python raises OverflowError)
  and \<^verbatim>\<open>str\<close> of a float are taken as parameters.
\<close>

record 'f floats =
  float_is_zero :: "'f \<Rightarrow> bool"
  float_g :: "'f \<Rightarrow> string"
  int_g :: "int \<Rightarrow> string option"
  float_str :: "'f \<Rightarrow> string"

definition andthen :: "'e + 'a \<Rightarrow> ('a \<Rightarrow> 'e + 'b) \<Rightarrow> 'e + 'b" where
  "andthen r f = (case r of Inl e \<Rightarrow> Inl e | Inr x \<Rightarrow> f x)"

text \<open>Truth value of an object, as \<^verbatim>\<open>if x:\<close> and \<^verbatim>\<open>not x\<close> take it.\<close>

fun truthy :: "'f floats \<Rightarrow> 'f pyval \<Rightarrow> bool" where
  "truthy F PNone = False"
| "truthy F (PBool b) = b"
| "truthy F (PInt i) = (i \<noteq> 0)"
| "truthy F (PFloat x) = (\<not> float_is_zero F x)"
| "truthy F (PStr s) = (s \<noteq> [])"

text \<open>\<^verbatim>\<open>x == 0\<close>: numbers compare by value, \<^verbatim>\<open>False == 0\<close> holds, nothing else equals 0.\<close>

fun eq_zero :: "'f floats \<Rightarrow> 'f pyval \<Rightarrow> bool" where
  "eq_zero F PNone = False"
| "eq_zero F (PBool b) = (\<not> b)"
| "eq_zero F (PInt i) = (i = 0)"
| "eq_zero F (PFloat x) = float_is_zero F x"
| "eq_zero F (PStr s) = False"

text \<open>\<^verbatim>\<open>x == 'literal'\<close>: only a string equals a string.\<close>

definition eq_str :: "'f pyval \<Rightarrow> string \<Rightarrow> bool" where
  "eq_str v s = (v = PStr s)"

fun str_nat :: "nat \<Rightarrow> string" where
  "str_nat n =
     (if n < 10 then [''0123456789'' ! n]
      else str_nat (n div 10) @ [''0123456789'' ! (n mod 10)])"

declare str_nat.simps [simp del]

definition str_int :: "int \<Rightarrow> string" where
  "str_int i = (if i < 0 then CHR ''-'' # str_nat (nat (- i)) else str_nat (nat i))"

text \<open>\<^verbatim>\<open>'{}'.format(x)\<close> and \<^verbatim>\<open>f'{x}'\<close>: \<^verbatim>\<open>str(x)\<close> for these types.\<close>

fun str_of :: "'f floats \<Rightarrow> 'f pyval \<Rightarrow> string" where
  "str_of F PNone = ''None''"
| "str_of F (PBool b) = (if b then ''True'' else ''False'')"
| "str_of F (PInt i) = str_int i"
| "str_of F (PFloat x) = float_str F x"
| "str_of F (PStr s) = s"

text \<open>
  \<^verbatim>\<open>f'{x:g}'\<close>: defined for numbers (a bool is an int); \<^verbatim>\<open>None\<close> raises TypeError and a
  string raises ValueError.
\<close>

definition format_int_g :: "'f floats \<Rightarrow> int \<Rightarrow> pyerr + string" where
  "format_int_g F i = (case int_g F i of None \<Rightarrow> Inl OverflowError | Some s \<Rightarrow> Inr s)"

fun format_g :: "'f floats \<Rightarrow> 'f pyval \<Rightarrow> pyerr + string" where
  "format_g F PNone = Inl TypeError"
| "format_g F (PBool b) = format_int_g F (if b then 1 else 0)"
| "format_g F (PInt i) = format_int_g F i"
| "format_g F (PFloat x) = Inr (float_g F x)"
| "format_g F (PStr s) = Inl ValueError"

section \<open>Paths and checkpoints\<close>

text \<open>
  A \<^verbatim>\<open>pathlib.Path\<close> is kept as the expression that builds it: \<open>Div p s\<close> is \<^verbatim>\<open>p / s\<close>.
  \<^verbatim>\<open>torch.load\<close> is a parameter \<open>load\<close> from the path to the loaded dictionary or the
  exception raised; of the dictionary only the entry \<^verbatim>\<open>'args'\<close> is read here, the rest
  is carried along in \<open>ck_state\<close>.
\<close>

datatype path = Path string | Div path string

record ('f, 'c) checkpoint =
  ck_args :: "(string \<times> 'f pyval) list option"
  ck_state :: 'c

definition new_path :: "'f pyval \<Rightarrow> pyerr + path" where
  "new_path v = (case v of PStr s \<Rightarrow> Inr (Path s) | _ \<Rightarrow> Inl TypeError)"

text \<open>Lines 66 to 75: the value is the updated \<^verbatim>\<open>args\<close>, \<^verbatim>\<open>output_dir\<close> and \<^verbatim>\<open>checkpoint\<close>.\<close>

definition resume_block ::
  "'f floats \<Rightarrow> (path \<Rightarrow> pyerr + ('f, 'c) checkpoint) \<Rightarrow> 'f namespace \<Rightarrow>
     pyerr + ('f namespace \<times> path option \<times> ('f, 'c) checkpoint option)" where
  "resume_block F load args =
     andthen (getattr args ''resume'') (\<lambda>resume.
       if truthy F resume then
         andthen (new_path resume) (\<lambda>output_dir.
         andthen (load (Div (Div output_dir ''log'') ''checkpoint.pth'')) (\<lambda>checkpoint.
           case ck_args checkpoint of
             None \<Rightarrow> Inl (KeyError ''args'')
           | Some items \<Rightarrow>
               Inr (apply_saved_args args items, Some output_dir, Some checkpoint)))
       else Inr (args, None, None))"

text \<open>What main holds in \<^verbatim>\<open>args\<close>, and in one attribute of it, right after line 75.\<close>

definition args_after_resume ::
  "'f floats \<Rightarrow> (path \<Rightarrow> pyerr + ('f, 'c) checkpoint) \<Rightarrow> 'f namespace \<Rightarrow>
     pyerr + 'f namespace" where
  "args_after_resume F load parsed =
     andthen (resume_block F load parsed) (\<lambda>(args, output_dir, checkpoint). Inr args)"

definition attr_after_resume ::
  "'f floats \<Rightarrow> (path \<Rightarrow> pyerr + ('f, 'c) checkpoint) \<Rightarrow> 'f namespace \<Rightarrow> string \<Rightarrow>
     pyerr + 'f pyval" where
  "attr_after_resume F load parsed key =
     andthen (args_after_resume F load parsed) (\<lambda>args. getattr args key)"

section \<open>The configuration part of main (lines 64 to 117)\<close>

text \<open>
  The mask generator's \<^verbatim>\<open>hard_sigmoid\<close> is a bool or a pair of float literals; a literal
  with one decimal digit is held as its number of tenths, so \<^verbatim>\<open>(-.1, 1.1)\<close> is
  \<open>HardRange (Tenths (- 1)) (Tenths 11)\<close>.
\<close>

datatype float_lit = Tenths int

datatype hard_sigmoid = HardBool bool | HardRange float_lit float_lit

text \<open>Lines 77 and 78.\<close>

definition check_imputeronly :: "'f floats \<Rightarrow> 'f namespace \<Rightarrow> pyerr + unit" where
  "check_imputeronly F args =
     andthen (getattr args ''imputeronly'') (\<lambda>imputeronly.
       if truthy F imputeronly then
         andthen (getattr args ''pretrain'') (\<lambda>pretrain.
           if pretrain \<noteq> PNone then Inr () else Inl AssertionError)
       else Inr ())"

text \<open>Lines 87 to 94.\<close>

definition select_hard_sigmoid :: "'f pyval \<Rightarrow> pyerr + hard_sigmoid" where
  "select_hard_sigmoid maskgen =
     (if eq_str maskgen ''sigmoid'' then Inr (HardBool False)
      else if eq_str maskgen ''hardsigmoid'' then Inr (HardBool True)
      else if eq_str maskgen ''fusion'' then Inr (HardRange (Tenths (- 1)) (Tenths 11))
      else Inl NotImplementedError)"

text \<open>
  Lines 96 to 104; \<open>mask_arg\<close> is the local variable \<^verbatim>\<open>mask\<close> and \<open>block_len\<close> the local
  variable of that name, already \<^verbatim>\<open>None\<close> where it was 0.
\<close>

definition make_mask_str ::
  "'f floats \<Rightarrow> 'f pyval \<Rightarrow> 'f pyval \<Rightarrow> 'f pyval \<Rightarrow> 'f pyval \<Rightarrow> pyerr + string" where
  "make_mask_str F mask_arg obs_prob obs_prob_high block_len =
     (if eq_str mask_arg ''indep'' then
        (if obs_prob_high = PNone then
           andthen (format_g F obs_prob) (\<lambda>p. Inr (''indep_'' @ p))
         else
           andthen (format_g F obs_prob) (\<lambda>p.
           andthen (format_g F obs_prob_high) (\<lambda>h. Inr (''indep_'' @ p @ ''_'' @ h))))
      else if eq_str mask_arg ''block'' then
        Inr (''block_'' @ (if truthy F block_len then str_of F block_len else ''varsize''))
      else Inl NotImplementedError)"

text \<open>\<^verbatim>\<open>'_'.join(xs)\<close>.\<close>

fun join_underscore :: "string list \<Rightarrow> string" where
  "join_underscore [] = []"
| "join_underscore [x] = x"
| "join_underscore (x # y # ys) = x @ ''_'' @ join_underscore (y # ys)"

text \<open>
  Lines 106 to 113; \<open>now\<close> is the value of \<^verbatim>\<open>datetime.now().strftime('%m%d.%H%M%S')\<close>.
\<close>

definition run_name :: "'f floats \<Rightarrow> string \<Rightarrow> 'f namespace \<Rightarrow> string \<Rightarrow> pyerr + string" where
  "run_name F now args mask_str =
     andthen (getattr args ''prefix'') (\<lambda>prefix.
     andthen (getattr args ''tau'') (\<lambda>tau.
     andthen (format_g F tau) (\<lambda>tau_g.
     andthen (getattr args ''maskgen'') (\<lambda>maskgen.
     andthen (getattr args ''alpha'') (\<lambda>alpha.
     andthen (format_g F alpha) (\<lambda>alpha_g.
     andthen (getattr args ''beta'') (\<lambda>beta.
     andthen (format_g F beta) (\<lambda>beta_g.
     andthen (getattr args ''gamma'') (\<lambda>gamma.
     andthen (format_g F gamma) (\<lambda>gamma_g.
       Inr (str_of F prefix @ ''_'' @ now @ ''_'' @
            join_underscore
              [''tau_'' @ tau_g,
               ''maskgen_'' @ str_of F maskgen,
               ''coef_'' @ alpha_g @ ''_'' @ beta_g @ ''_'' @ gamma_g,
               mask_str])))))))))))"

text \<open>The local variables of main that the rest of it reads.\<close>

record ('f, 'c) locals =
  v_args :: "'f namespace"
  v_checkpoint :: "('f, 'c) checkpoint option"
  v_mask :: "'f pyval"
  v_obs_prob :: "'f pyval"
  v_obs_prob_high :: "'f pyval"
  v_block_len :: "'f pyval"
  v_hard_sigmoid :: hard_sigmoid
  v_mask_str :: string
  v_path :: string
  v_output_dir :: "path option"

definition main_config ::
  "'f floats \<Rightarrow> (path \<Rightarrow> pyerr + ('f, 'c) checkpoint) \<Rightarrow> string \<Rightarrow> 'f namespace \<Rightarrow>
     pyerr + ('f, 'c) locals" where
  "main_config F load now parsed =
     andthen (resume_block F load parsed) (\<lambda>(args, resumed_dir, checkpoint).
     andthen (check_imputeronly F args) (\<lambda>_.
     andthen (getattr args ''mask'') (\<lambda>mask.
     andthen (getattr args ''obs_prob'') (\<lambda>obs_prob.
     andthen (getattr args ''obs_prob_high'') (\<lambda>obs_prob_high.
     andthen (getattr args ''block_len'') (\<lambda>block_len0.
     let block_len = (if eq_zero F block_len0 then PNone else block_len0) in
     andthen (getattr args ''maskgen'') (\<lambda>maskgen.
     andthen (select_hard_sigmoid maskgen) (\<lambda>hard_sigmoid.
     andthen (make_mask_str F mask obs_prob obs_prob_high block_len) (\<lambda>mask_str.
     andthen (run_name F now args mask_str) (\<lambda>path.
     andthen (getattr args ''resume'') (\<lambda>resume.
       Inr \<lparr> v_args = args, v_checkpoint = checkpoint, v_mask = mask,
             v_obs_prob = obs_prob, v_obs_prob_high = obs_prob_high,
             v_block_len = block_len, v_hard_sigmoid = hard_sigmoid,
             v_mask_str = mask_str, v_path = path,
             v_output_dir =
               (if \<not> truthy F resume
                then Some (Div (Div (Path ''results'') ''celeba'') path)
                else resumed_dir) \<rparr>)))))))))))"

section \<open>The argument parser (lines 25 to 62)\<close>

datatype arg_kind = AsStr | AsInt | AsFloat | StoreTrue

datatype arg_default = NoDefault | DefaultStr string | DefaultInt int | DefaultFloat float_lit

text \<open>One entry for each \<^verbatim>\<open>parser.add_argument\<close> call, in the order of the source.\<close>

definition parser_arguments :: "(string \<times> arg_kind \<times> arg_default) list" where
  "parser_arguments =
     [(''--resume'', AsStr, NoDefault),
      (''--data-dir'', AsStr, DefaultStr ''dataset''),
      (''--workers'', AsInt, DefaultInt 0),
      (''--epoch'', AsInt, DefaultInt 1000),
      (''--batch-size'', AsInt, DefaultInt 2),
      (''--pretrain'', AsStr, NoDefault),
      (''--imputeronly'', StoreTrue, NoDefault),
      (''--plot-interval'', AsInt, DefaultInt 50),
      (''--save-interval'', AsInt, DefaultInt 499),
      (''--prefix'', AsStr, DefaultStr ''impute''),
      (''--mask'', AsStr, DefaultStr ''block''),
      (''--block-len'', AsInt, DefaultInt 48),
      (''--obs-prob'', AsFloat, DefaultFloat (Tenths 8)),
      (''--obs-prob-high'', AsFloat, NoDefault),
      (''--tau'', AsFloat, DefaultFloat (Tenths 5)),
      (''--alpha'', AsFloat, DefaultFloat (Tenths 1)),
      (''--beta'', AsFloat, DefaultFloat (Tenths 1)),
      (''--gamma'', AsFloat, DefaultInt 0),
      (''--maskgen'', AsStr, DefaultStr ''fusion''),
      (''--gp-lambda'', AsFloat, DefaultInt 10),
      (''--n-critic'', AsInt, DefaultInt 5),
      (''--n-latent'', AsInt, DefaultInt 128)]"

text \<open>The attribute argparse stores a flag under: the dashes in front dropped, the others underscores.\<close>

definition dest :: "string \<Rightarrow> string" where
  "dest flag = map (\<lambda>c. if c = CHR ''-'' then CHR ''_'' else c) (drop 2 flag)"

text \<open>A namespace as \<^verbatim>\<open>parse_args\<close> returns it has an attribute for every flag of the parser.\<close>

definition complete :: "'f namespace \<Rightarrow> bool" where
  "complete args = (\<forall>flag \<in> set (map fst parser_arguments). args (dest flag) \<noteq> None)"

section \<open>The construction part of main (lines 119 to 139)\<close>

text \<open>
  The names bound in the module when main runs: the imports of lines 1 to 13, the two
  assignments and the two function definitions. No built-in of Python is called
  \<^verbatim>\<open>IndepMaskedCelebA\<close> or \<^verbatim>\<open>BlockMaskedCelebA\<close>.
\<close>

definition module_globals :: "string list" where
  "module_globals =
     [''torch'', ''nn'', ''datetime'', ''Path'', ''argparse'',
      ''ConvDataGenerator'', ''ConvMaskGenerator'', ''ConvCritic'',
      ''BlockMaskedImage'', ''IndepMaskedImage'', ''UNetImputer'', ''misgan_impute'',
      ''use_cuda'', ''device'', ''parallelize'', ''main'']"

definition lookup_global :: "string \<Rightarrow> pyerr + string" where
  "lookup_global name =
     (if name \<in> set module_globals then Inr name else Inl (NameError name))"

text \<open>
  Objects are kept as the constructor call that made them; \<^verbatim>\<open>.to(device)\<close> returns the
  module it is called on. The construction part threads the list of objects constructed
  so far.
\<close>

datatype 'f kwarg = ArgVal "'f pyval" | ArgHard hard_sigmoid

datatype 'f pyobj = New string "(string \<times> 'f kwarg) list" | DataParallel "'f pyobj"

type_synonym ('f, 'a) build = "'f pyobj list \<Rightarrow> 'f pyobj list \<times> (pyerr + 'a)"

definition then_build :: "('f, 'a) build \<Rightarrow> ('a \<Rightarrow> ('f, 'b) build) \<Rightarrow> ('f, 'b) build" where
  "then_build m f made =
     (case m made of (made', Inl e) \<Rightarrow> (made', Inl e) | (made', Inr x) \<Rightarrow> f x made')"

definition no_build :: "pyerr + 'a \<Rightarrow> ('f, 'a) build" where
  "no_build r made = (made, r)"

text \<open>A call \<^verbatim>\<open>Name(k=v, ...)\<close>: the name is looked up, then the arguments are evaluated.\<close>

definition construct ::
  "string \<Rightarrow> (pyerr + (string \<times> 'f kwarg) list) \<Rightarrow> ('f, 'f pyobj) build" where
  "construct name kwargs made =
     (case lookup_global name of
        Inl e \<Rightarrow> (made, Inl e)
      | Inr _ \<Rightarrow>
          (case kwargs of
             Inl e \<Rightarrow> (made, Inl e)
           | Inr kw \<Rightarrow> (made @ [New name kw], Inr (New name kw))))"

text \<open>Lines 20 and 21.\<close>

definition parallelize :: "'f pyobj \<Rightarrow> ('f, 'f pyobj) build" where
  "parallelize model made = (made @ [DataParallel model], Inr (DataParallel model))"

text \<open>Lines 119 to 125; \<^verbatim>\<open>data\<close> stays unbound when neither branch is taken.\<close>

definition make_data :: "('f, 'c) locals \<Rightarrow> ('f, 'f pyobj option) build" where
  "make_data L =
     (if eq_str (v_mask L) ''indep'' then
        then_build
          (construct ''IndepMaskedCelebA''
             (andthen (getattr (v_args L) ''data_dir'') (\<lambda>data_dir.
                Inr [(''data_dir'', ArgVal data_dir),
                     (''obs_prob'', ArgVal (v_obs_prob L)),
                     (''obs_prob_high'', ArgVal (v_obs_prob_high L))])))
          (\<lambda>data. no_build (Inr (Some data)))
      else if eq_str (v_mask L) ''block'' then
        then_build
          (construct ''BlockMaskedCelebA''
             (andthen (getattr (v_args L) ''data_dir'') (\<lambda>data_dir.
                Inr [(''data_dir'', ArgVal data_dir),
                     (''block_len'', ArgVal (v_block_len L))])))
          (\<lambda>data. no_build (Inr (Some data)))
      else no_build (Inr None))"

text \<open>Lines 129 to 135.\<close>

definition main_wire ::
  "hard_sigmoid \<Rightarrow>
     ('f, 'f pyobj \<times> 'f pyobj \<times> 'f pyobj \<times> 'f pyobj \<times> 'f pyobj \<times> 'f pyobj) build" where
  "main_wire hard_sigmoid =
     then_build (construct ''ConvDataGenerator'' (Inr [])) (\<lambda>g.
     then_build (parallelize g) (\<lambda>data_gen.
     then_build (construct ''ConvMaskGenerator'' (Inr [(''hard_sigmoid'', ArgHard hard_sigmoid)])) (\<lambda>m.
     then_build (parallelize m) (\<lambda>mask_gen.
     then_build (construct ''UNetImputer'' (Inr [])) (\<lambda>imputer.
     then_build (construct ''ConvCritic'' (Inr [(''n_channels'', ArgVal (PInt 3))])) (\<lambda>c1.
     then_build (parallelize c1) (\<lambda>data_critic.
     then_build (construct ''ConvCritic'' (Inr [(''n_channels'', ArgVal (PInt 1))])) (\<lambda>c2.
     then_build (parallelize c2) (\<lambda>mask_critic.
     then_build (construct ''ConvCritic'' (Inr [(''n_channels'', ArgVal (PInt 3))])) (\<lambda>c3.
     then_build (parallelize c3) (\<lambda>impu_critic.
       no_build
         (Inr (data_gen, mask_gen, imputer, data_critic, mask_critic, impu_critic)))))))))))))"


text \<open>The arguments of the call of lines 137 to 139, in its order.\<close>

record ('f, 'c) call =
  a_args :: "'f namespace"
  a_data_gen :: "'f pyobj"
  a_mask_gen :: "'f pyobj"
  a_imputer :: "'f pyobj"
  a_data_critic :: "'f pyobj"
  a_mask_critic :: "'f pyobj"
  a_impu_critic :: "'f pyobj"
  a_data :: "'f pyobj"
  a_output_dir :: path
  a_checkpoint :: "('f, 'c) checkpoint option"

definition call_misgan_impute ::
  "('f, 'c) locals \<Rightarrow> 'f pyobj option \<Rightarrow>
     'f pyobj \<times> 'f pyobj \<times> 'f pyobj \<times> 'f pyobj \<times> 'f pyobj \<times> 'f pyobj \<Rightarrow>
     pyerr + ('f, 'c) call" where
  "call_misgan_impute L data nets =
     (case nets of (data_gen, mask_gen, imputer, data_critic, mask_critic, impu_critic) \<Rightarrow>
        andthen (lookup_global ''misgan_impute'') (\<lambda>_.
          case data of
            None \<Rightarrow> Inl (UnboundLocalError ''data'')
          | Some d \<Rightarrow>
              (case v_output_dir L of
                 None \<Rightarrow> Inl (UnboundLocalError ''output_dir'')
               | Some output_dir \<Rightarrow>
                   Inr \<lparr> a_args = v_args L, a_data_gen = data_gen, a_mask_gen = mask_gen,
                         a_imputer = imputer, a_data_critic = data_critic,
                         a_mask_critic = mask_critic, a_impu_critic = impu_critic,
                         a_data = d, a_output_dir = output_dir,
                         a_checkpoint = v_checkpoint L \<rparr>)))"

definition main_build :: "('f, 'c) locals \<Rightarrow> ('f, ('f, 'c) call) build" where
  "main_build L =
     then_build (make_data L) (\<lambda>data.
     then_build (main_wire (v_hard_sigmoid L)) (\<lambda>nets.
       no_build (call_misgan_impute L data nets)))"

section \<open>main\<close>

text \<open>
  The value of main is the list of objects it constructed and either the exception that
  ended it or the call of \<^verbatim>\<open>misgan_impute\<close> it made. The inputs are the namespace
  \<^verbatim>\<open>parser.parse_args()\<close> returned, \<^verbatim>\<open>torch.load\<close> and the time stamp.
  What main prints (lines 69, 117 and 128) and the count of GPUs it prints are left out:
  nothing else in main reads them.
\<close>

definition main ::
  "'f floats \<Rightarrow> (path \<Rightarrow> pyerr + ('f, 'c) checkpoint) \<Rightarrow> string \<Rightarrow> 'f namespace \<Rightarrow>
     'f pyobj list \<times> (pyerr + ('f, 'c) call)" where
  "main F load now parsed =
     (case main_config F load now parsed of
        Inl e \<Rightarrow> ([], Inl e)
      | Inr L \<Rightarrow> main_build L [])"

section \<open>Concrete inputs\<close>

text \<open>
  For running the model, floats that are literals with one decimal digit: \<open>g_tenths\<close>
  and \<open>str_tenths\<close> print them as Python prints the float of that literal. Under
  \<^verbatim>\<open>'g'\<close> an integer prints as its decimal digits; that is what Python gives below a
  million, and the runs below format no larger integer.
\<close>

definition g_tenths :: "float_lit \<Rightarrow> string" where
  "g_tenths x =
     (case x of Tenths n \<Rightarrow>
        (if n < 0 then ''-'' else []) @ str_nat (nat \<bar>n\<bar> div 10) @
        (if \<bar>n\<bar> mod 10 = 0 then [] else ''.'' @ str_nat (nat \<bar>n\<bar> mod 10)))"

definition str_tenths :: "float_lit \<Rightarrow> string" where
  "str_tenths x =
     (case x of Tenths n \<Rightarrow>
        (if n < 0 then ''-'' else []) @ str_nat (nat \<bar>n\<bar> div 10) @ ''.'' @
        str_nat (nat \<bar>n\<bar> mod 10))"

definition literal_floats :: "float_lit floats" where
  "literal_floats =
     \<lparr> float_is_zero = (\<lambda>x. x = Tenths 0), float_g = g_tenths,
       int_g = (\<lambda>i. Some (str_int i)), float_str = str_tenths \<rparr>"

text \<open>
  The namespace \<^verbatim>\<open>parse_args\<close> returns for a command line without flags: every
  attribute at its default, \<^verbatim>\<open>False\<close> for a \<^verbatim>\<open>store_true\<close> flag and \<^verbatim>\<open>None\<close> where no
  default is given.
\<close>

fun default_value :: "arg_kind \<Rightarrow> arg_default \<Rightarrow> float_lit pyval" where
  "default_value StoreTrue d = PBool False"
| "default_value k NoDefault = PNone"
| "default_value k (DefaultStr s) = PStr s"
| "default_value k (DefaultInt i) = PInt i"
| "default_value k (DefaultFloat x) = PFloat x"

definition no_flags :: "float_lit namespace" where
  "no_flags = map_of (map (\<lambda>(flag, k, d). (dest flag, default_value k d)) parser_arguments)"

text \<open>A \<^verbatim>\<open>torch.load\<close> that finds no file, and one that finds the given checkpoint.\<close>

definition load_fails :: "path \<Rightarrow> pyerr + (float_lit, unit) checkpoint" where
  "load_fails p = Inl LoadError"

definition load_gives ::
  "(string \<times> float_lit pyval) list \<Rightarrow> path \<Rightarrow> pyerr + (float_lit, unit) checkpoint" where
  "load_gives items p = Inr \<lparr> ck_args = Some items, ck_state = () \<rparr>"

section \<open>Properties of the resume loop\<close>

lemma apply_saved_args_resume:
  "apply_saved_args args items ''resume'' = args ''resume''"
  by (induction items arbitrary: args) (auto simp: setattr_def)

lemma apply_saved_args_absent:
  "k \<notin> fst ` set items \<Longrightarrow> apply_saved_args args items k = args k"
  by (induction items arbitrary: args) (auto simp: setattr_def)

lemma apply_saved_args_present:
  "distinct (map fst items) \<Longrightarrow> (k, v) \<in> set items \<Longrightarrow> k \<noteq> ''resume'' \<Longrightarrow>
     apply_saved_args args items k = Some v"
proof (induction items arbitrary: args)
  case Nil
  then show ?case by simp
next
  case (Cons item items)
  obtain key arg where item: "item = (key, arg)" by (cases item)
  show ?case
  proof (cases "(k, v) = item")
    case True
    with Cons.prems item have "k \<notin> fst ` set items" by auto
    with True item Cons.prems(3) show ?thesis
      by (simp add: apply_saved_args_absent setattr_def)
  next
    case False
    with Cons.prems have "(k, v) \<in> set items" "distinct (map fst items)" by auto
    with Cons.IH Cons.prems(3) item show ?thesis by simp
  qed
qed

section \<open>Helper facts\<close>

lemma andthen_Inr: "andthen r f = Inr y \<Longrightarrow> \<exists>x. r = Inr x \<and> f x = Inr y"
  by (cases r) (simp_all add: andthen_def)

lemma andthen_Inl [simp]: "andthen (Inl e) f = Inl e"
  by (simp add: andthen_def)

lemma andthen_Inr_eq [simp]: "andthen (Inr x) f = f x"
  by (simp add: andthen_def)

lemma make_mask_str_Inr:
  "make_mask_str F m p h b = Inr s \<Longrightarrow> eq_str m ''indep'' \<or> eq_str m ''block''"
  by (simp add: make_mask_str_def split: if_splits)

lemma main_config_mask:
  assumes "main_config F load now parsed = Inr L"
  shows "eq_str (v_mask L) ''indep'' \<or> eq_str (v_mask L) ''block''"
  using assms unfolding main_config_def Let_def
  by (auto dest!: andthen_Inr make_mask_str_Inr split: prod.splits)

lemma lookup_indep:
  "lookup_global ''IndepMaskedCelebA'' = Inl (NameError ''IndepMaskedCelebA'')"
  by (simp add: lookup_global_def module_globals_def)

lemma lookup_block:
  "lookup_global ''BlockMaskedCelebA'' = Inl (NameError ''BlockMaskedCelebA'')"
  by (simp add: lookup_global_def module_globals_def)

lemma main_build_indep:
  "eq_str (v_mask L) ''indep'' \<Longrightarrow>
     main_build L made = (made, Inl (NameError ''IndepMaskedCelebA''))"
  by (simp add: main_build_def make_data_def then_build_def construct_def lookup_indep)

lemma main_build_block:
  "\<not> eq_str (v_mask L) ''indep'' \<Longrightarrow> eq_str (v_mask L) ''block'' \<Longrightarrow>
     main_build L made = (made, Inl (NameError ''BlockMaskedCelebA''))"
  by (simp add: main_build_def make_data_def then_build_def construct_def lookup_block)

lemma main_after_config:
  assumes "main_config F load now parsed = Inr L"
  shows "main F load now parsed =
           ([], Inl (NameError (if eq_str (v_mask L) ''indep''
                                then ''IndepMaskedCelebA'' else ''BlockMaskedCelebA'')))"
proof (cases "eq_str (v_mask L) ''indep''")
  case True
  with assms show ?thesis by (simp add: main_def main_build_indep)
next
  case False
  with main_config_mask [OF assms] have "eq_str (v_mask L) ''block''" by simp
  with False assms show ?thesis by (simp add: main_def main_build_block)
qed

lemma not_isl_Inr: "\<not> isl r \<Longrightarrow> \<exists>x. r = Inr x"
  by (cases r) simp_all

section \<open>The dataset constructors are unbound names\<close>

text \<open>
  Claim C1. Whenever main gets as far as constructing the dataset, that is whenever the
  configuration part ends without an exception (then \<^verbatim>\<open>mask\<close> is \<^verbatim>\<open>'indep'\<close> or
  \<^verbatim>\<open>'block'\<close>), main ends with a NameError for \<^verbatim>\<open>IndepMaskedCelebA\<close> or
  \<^verbatim>\<open>BlockMaskedCelebA\<close>, having constructed nothing; and whatever the inputs, main never
  makes the call of \<^verbatim>\<open>misgan_impute\<close>.
\<close>

theorem main_raises_NameError:
  "(\<forall>L. main_config F load now parsed = Inr L \<longrightarrow>
      (eq_str (v_mask L) ''indep'' \<or> eq_str (v_mask L) ''block'') \<and>
      main F load now parsed =
        ([], Inl (NameError (if eq_str (v_mask L) ''indep''
                             then ''IndepMaskedCelebA'' else ''BlockMaskedCelebA'')))) \<and>
   (\<forall>made c. main F load now parsed \<noteq> (made, Inr c))"
proof (intro conjI allI impI)
  fix L assume "main_config F load now parsed = Inr L"
  then show "eq_str (v_mask L) ''indep'' \<or> eq_str (v_mask L) ''block''"
    by (rule main_config_mask)
next
  fix L assume "main_config F load now parsed = Inr L"
  then show "main F load now parsed =
        ([], Inl (NameError (if eq_str (v_mask L) ''indep''
                             then ''IndepMaskedCelebA'' else ''BlockMaskedCelebA'')))"
    by (rule main_after_config)
next
  fix made c
  show "main F load now parsed \<noteq> (made, Inr c)"
  proof (cases "main_config F load now parsed")
    case (Inl e)
    then show ?thesis by (simp add: main_def)
  next
    case (Inr L)
    then show ?thesis by (simp add: main_after_config)
  qed
qed

theorem main_raises_NameError_witness:
  "(\<exists>L. main_config literal_floats load_fails ''0101.000000'' no_flags = Inr L) \<and>
   main literal_floats load_fails ''0101.000000'' no_flags =
     ([], Inl (NameError ''BlockMaskedCelebA''))"
proof -
  have "\<not> isl (main_config literal_floats load_fails ''0101.000000'' no_flags)"
    by code_simp
  then obtain L where L: "main_config literal_floats load_fails ''0101.000000'' no_flags = Inr L"
    using not_isl_Inr by blast
  have "map_sum id v_mask (main_config literal_floats load_fails ''0101.000000'' no_flags)
          = Inr (PStr ''block'')"
    by code_simp
  with L have m: "v_mask L = PStr ''block''" by simp
  from main_raises_NameError [of literal_floats load_fails "''0101.000000''" no_flags] L
  have "main literal_floats load_fails ''0101.000000'' no_flags =
          ([], Inl (NameError (if eq_str (v_mask L) ''indep''
                               then ''IndepMaskedCelebA'' else ''BlockMaskedCelebA'')))"
    by blast
  with m L show ?thesis by (simp add: eq_str_def)
qed

lemma resume_block_loaded:
  assumes "parsed ''resume'' = Some (PStr s)" "s \<noteq> []"
    and "load (Div (Div (Path s) ''log'') ''checkpoint.pth'') = Inr ck"
    and "ck_args ck = Some items"
  shows "resume_block F load parsed = Inr (apply_saved_args parsed items, Some (Path s), Some ck)"
  using assms by (simp add: resume_block_def getattr_def new_path_def)


lemma resume_block_not_set:
  assumes "parsed ''resume'' = Some PNone \<or> parsed ''resume'' = Some (PStr [])"
  shows "resume_block F load parsed = Inr (parsed, None, None)"
  using assms by (auto simp add: resume_block_def getattr_def)

section \<open>What the resume block does to the parsed arguments\<close>

text \<open>
  Claim C4, as the code has it. When \<^verbatim>\<open>args.resume\<close> is a non-empty string and the
  checkpoint loads, every item of the checkpoint's saved args whose key is not
  \<^verbatim>\<open>'resume'\<close> overwrites the parsed value; \<^verbatim>\<open>resume\<close> keeps its command-line value, and
  so does every attribute that the saved args do not hold. When \<^verbatim>\<open>args.resume\<close> is
  \<^verbatim>\<open>None\<close> or the empty string, the parsed arguments are left as they are.
\<close>

theorem resume_overwrites:
  "(\<forall>s ck items.
      parsed ''resume'' = Some (PStr s) \<and> s \<noteq> [] \<and>
      load (Div (Div (Path s) ''log'') ''checkpoint.pth'') = Inr ck \<and>
      ck_args ck = Some items \<and> distinct (map fst items) \<longrightarrow>
      (\<exists>args. args_after_resume F load parsed = Inr args \<and>
         (\<forall>k v. (k, v) \<in> set items \<and> k \<noteq> ''resume'' \<longrightarrow> args k = Some v) \<and>
         args ''resume'' = parsed ''resume'' \<and>
         (\<forall>k. k \<notin> fst ` set items \<longrightarrow> args k = parsed k))) \<and>
   (parsed ''resume'' = Some PNone \<or> parsed ''resume'' = Some (PStr []) \<longrightarrow>
      args_after_resume F load parsed = Inr parsed)"
proof (intro conjI allI impI)
  fix s ck items
  assume h: "parsed ''resume'' = Some (PStr s) \<and> s \<noteq> [] \<and>
      load (Div (Div (Path s) ''log'') ''checkpoint.pth'') = Inr ck \<and>
      ck_args ck = Some items \<and> distinct (map fst items)"
  then have "args_after_resume F load parsed = Inr (apply_saved_args parsed items)"
    by (simp add: args_after_resume_def resume_block_loaded)
  moreover from h have "\<forall>k v. (k, v) \<in> set items \<and> k \<noteq> ''resume'' \<longrightarrow>
      apply_saved_args parsed items k = Some v"
    by (blast intro: apply_saved_args_present)
  moreover have "apply_saved_args parsed items ''resume'' = parsed ''resume''"
    by (rule apply_saved_args_resume)
  moreover have "\<forall>k. k \<notin> fst ` set items \<longrightarrow> apply_saved_args parsed items k = parsed k"
    by (simp add: apply_saved_args_absent)
  ultimately show "\<exists>args. args_after_resume F load parsed = Inr args \<and>
         (\<forall>k v. (k, v) \<in> set items \<and> k \<noteq> ''resume'' \<longrightarrow> args k = Some v) \<and>
         args ''resume'' = parsed ''resume'' \<and>
         (\<forall>k. k \<notin> fst ` set items \<longrightarrow> args k = parsed k)"
    by blast
next
  assume "parsed ''resume'' = Some PNone \<or> parsed ''resume'' = Some (PStr [])"
  then show "args_after_resume F load parsed = Inr parsed"
    by (simp add: args_after_resume_def resume_block_not_set)
qed

lemma no_flags_resume: "no_flags ''resume'' = Some PNone"
  by (simp add: no_flags_def parser_arguments_def dest_def)

lemma no_flags_prefix: "no_flags ''prefix'' = Some (PStr ''impute'')"
  by (simp add: no_flags_def parser_arguments_def dest_def)

theorem resume_overwrites_witness:
  "attr_after_resume literal_floats
     (load_gives [(''epoch'', PInt 5), (''resume'', PStr ''old''), (''prefix'', PStr ''saved'')])
     (no_flags(''resume'' \<mapsto> PStr ''run1'')) ''epoch'' = Inr (PInt 5) \<and>
   attr_after_resume literal_floats
     (load_gives [(''epoch'', PInt 5), (''resume'', PStr ''old''), (''prefix'', PStr ''saved'')])
     (no_flags(''resume'' \<mapsto> PStr ''run1'')) ''resume'' = Inr (PStr ''run1'') \<and>
   attr_after_resume literal_floats
     (load_gives [(''epoch'', PInt 5), (''resume'', PStr ''old''), (''prefix'', PStr ''saved'')])
     (no_flags(''resume'' \<mapsto> PStr ''run1'')) ''mask'' = Inr (PStr ''block'') \<and>
   args_after_resume literal_floats load_fails no_flags = Inr no_flags"
proof -
  let ?items = "[(''epoch'', PInt 5), (''resume'', PStr ''old''), (''prefix'', PStr ''saved'')]
                  :: (string \<times> float_lit pyval) list"
  let ?parsed = "no_flags(''resume'' \<mapsto> PStr ''run1'')"
  let ?ck = "\<lparr> ck_args = Some ?items, ck_state = () \<rparr>"
  have h: "?parsed ''resume'' = Some (PStr ''run1'') \<and> ''run1'' \<noteq> [] \<and>
      load_gives ?items (Div (Div (Path ''run1'') ''log'') ''checkpoint.pth'') = Inr ?ck \<and>
      ck_args ?ck = Some ?items \<and> distinct (map fst ?items)"
    by (simp add: load_gives_def)
  note T = resume_overwrites [of ?parsed "load_gives ?items" literal_floats,
      THEN conjunct1, rule_format, of "''run1''" ?ck ?items, OF h]
  then obtain args where a: "args_after_resume literal_floats (load_gives ?items) ?parsed = Inr args"
    and p: "\<forall>k v. (k, v) \<in> set ?items \<and> k \<noteq> ''resume'' \<longrightarrow> args k = Some v"
    and r: "args ''resume'' = ?parsed ''resume''"
    and n: "\<forall>k. k \<notin> fst ` set ?items \<longrightarrow> args k = ?parsed k"
    by (elim exE conjE) (rule that)
  from p have "args ''epoch'' = Some (PInt 5)" by simp
  moreover from r have "args ''resume'' = Some (PStr ''run1'')" by simp
  moreover from n have "args ''mask'' = ?parsed ''mask''" by simp
  then have "args ''mask'' = Some (PStr ''block'')"
    by (simp add: no_flags_def parser_arguments_def dest_def)
  moreover from resume_overwrites [of no_flags load_fails literal_floats, THEN conjunct2]
    no_flags_resume
  have "args_after_resume literal_floats load_fails no_flags = Inr no_flags" by simp
  ultimately show ?thesis using a by (simp add: attr_after_resume_def getattr_def)
qed

text \<open>
  A checkpoint whose saved args hold only \<^verbatim>\<open>epoch\<close>: after the resume block \<^verbatim>\<open>prefix\<close>
  still has its command-line value, so \<^verbatim>\<open>resume\<close> is not the only attribute that keeps it.
\<close>

theorem resume_keeps_absent_counterexample:
  "attr_after_resume literal_floats (load_gives [(''epoch'', PInt 5)])
     (no_flags(''resume'' \<mapsto> PStr ''run1'', ''prefix'' \<mapsto> PStr ''mine'')) ''prefix''
     = Inr (PStr ''mine'') \<and>
   attr_after_resume literal_floats (load_gives [(''epoch'', PInt 5)])
     (no_flags(''resume'' \<mapsto> PStr ''run1'', ''prefix'' \<mapsto> PStr ''mine'')) ''epoch''
     = Inr (PInt 5)"
  by (simp add: attr_after_resume_def args_after_resume_def resume_block_def getattr_def
      new_path_def load_gives_def setattr_def)

lemma getattr_Inr: "getattr args k = Inr v \<longleftrightarrow> args k = Some v"
  by (simp add: getattr_def split: option.splits)

lemma main_config_Inr:
  assumes "main_config F load now parsed = Inr L"
  shows "\<exists>od resume.
      resume_block F load parsed = Inr (v_args L, od, v_checkpoint L) \<and>
      check_imputeronly F (v_args L) = Inr () \<and>
      v_args L ''mask'' = Some (v_mask L) \<and>
      v_args L ''obs_prob'' = Some (v_obs_prob L) \<and>
      v_args L ''obs_prob_high'' = Some (v_obs_prob_high L) \<and>
      (\<exists>b. v_args L ''block_len'' = Some b \<and>
           v_block_len L = (if eq_zero F b then PNone else b)) \<and>
      (\<exists>g. v_args L ''maskgen'' = Some g \<and> select_hard_sigmoid g = Inr (v_hard_sigmoid L)) \<and>
      make_mask_str F (v_mask L) (v_obs_prob L) (v_obs_prob_high L) (v_block_len L)
        = Inr (v_mask_str L) \<and>
      run_name F now (v_args L) (v_mask_str L) = Inr (v_path L) \<and>
      v_args L ''resume'' = Some resume \<and>
      v_output_dir L =
        (if \<not> truthy F resume then Some (Div (Div (Path ''results'') ''celeba'') (v_path L))
         else od)"
  using assms unfolding main_config_def Let_def
  by (auto dest!: andthen_Inr simp: getattr_Inr split: prod.splits)






section \<open>The run name and the output directory\<close>






lemma apply_saved_args_dom:
  "args k = Some v \<Longrightarrow> \<exists>w. apply_saved_args args items k = Some w"
proof (induction items arbitrary: args v)
  case Nil
  then show ?case by simp
next
  case (Cons item items)
  obtain key arg where item: "item = (key, arg)" by (cases item)
  let ?a = "if key \<notin> set [''resume''] then setattr args key arg else args"
  from Cons.prems have "\<exists>v'. ?a k = Some v'" by (simp add: setattr_def)
  then obtain v' where "?a k = Some v'" ..
  with Cons.IH [of ?a v'] item show ?case by simp
qed

lemma complete_apply_saved_args:
  assumes "complete parsed"
  shows "complete (apply_saved_args parsed items)"
  unfolding complete_def
proof
  fix flag assume "flag \<in> set (map fst parser_arguments)"
  with assms have "parsed (dest flag) \<noteq> None" unfolding complete_def by blast
  then obtain v where "parsed (dest flag) = Some v" by blast
  with apply_saved_args_dom [of parsed "dest flag" v items]
  show "apply_saved_args parsed items (dest flag) \<noteq> None" by auto
qed

lemma resume_block_complete:
  assumes "complete parsed" "resume_block F load parsed = Inr (args, od, ck)"
  shows "complete args"
  using assms unfolding resume_block_def
  by (auto dest!: andthen_Inr simp: complete_apply_saved_args
      split: if_splits option.splits)

lemma complete_attrs:
  assumes "complete args"
  shows "\<exists>m p h b g r. args ''mask'' = Some m \<and> args ''obs_prob'' = Some p \<and>
     args ''obs_prob_high'' = Some h \<and> args ''block_len'' = Some b \<and>
     args ''maskgen'' = Some g \<and> args ''resume'' = Some r"
  using assms by (simp add: complete_def parser_arguments_def dest_def)

lemma format_g_not_NotImplemented: "format_g F v \<noteq> Inl NotImplementedError"
  by (cases v) (simp_all add: format_int_g_def split: option.splits)

lemma andthen_Inl_iff:
  "andthen r f = Inl e \<longleftrightarrow> r = Inl e \<or> (\<exists>x. r = Inr x \<and> f x = Inl e)"
  by (cases r) simp_all

lemma getattr_not_NotImplemented: "getattr args k \<noteq> Inl NotImplementedError"
  by (simp add: getattr_def split: option.splits)

lemma make_mask_str_NotImplemented:
  "make_mask_str F m p h b = Inl NotImplementedError \<longleftrightarrow>
     \<not> eq_str m ''indep'' \<and> \<not> eq_str m ''block''"
  by (auto simp: make_mask_str_def andthen_Inl_iff format_g_not_NotImplemented)

lemma run_name_not_NotImplemented: "run_name F now args ms \<noteq> Inl NotImplementedError"
  by (auto simp: run_name_def andthen_Inl_iff format_g_not_NotImplemented
      getattr_not_NotImplemented)

lemma select_hard_sigmoid_Inl:
  "select_hard_sigmoid g = Inl e \<longleftrightarrow>
     e = NotImplementedError \<and>
     g \<notin> {PStr ''sigmoid'', PStr ''hardsigmoid'', PStr ''fusion''}"
  by (auto simp: select_hard_sigmoid_def eq_str_def)

lemma select_hard_sigmoid_Inr:
  "select_hard_sigmoid g = Inr hs \<longleftrightarrow>
     (g = PStr ''sigmoid'' \<and> hs = HardBool False) \<or>
     (g = PStr ''hardsigmoid'' \<and> hs = HardBool True) \<or>
     (g = PStr ''fusion'' \<and> hs = HardRange (Tenths (- 1)) (Tenths 11))"
  by (auto simp: select_hard_sigmoid_def eq_str_def)

lemma main_fst: "fst (main F load now parsed) = []"
proof (cases "main_config F load now parsed")
  case (Inl e)
  then show ?thesis by (simp add: main_def)
next
  case (Inr L)
  then show ?thesis by (simp add: main_after_config)
qed

lemma main_snd_NotImplemented:
  "snd (main F load now parsed) = Inl NotImplementedError \<longleftrightarrow>
     main_config F load now parsed = Inl NotImplementedError"
proof (cases "main_config F load now parsed")
  case (Inl e)
  then show ?thesis by (simp add: main_def)
next
  case (Inr L)
  then show ?thesis by (simp add: main_after_config)
qed

lemma main_config_NotImplemented:
  assumes rb: "resume_block F load parsed = Inr (args, od, ck)"
    and ci: "check_imputeronly F args = Inr ()"
    and at: "args ''mask'' = Some m" "args ''obs_prob'' = Some p"
      "args ''obs_prob_high'' = Some h" "args ''block_len'' = Some b"
      "args ''maskgen'' = Some g"
  shows "main_config F load now parsed = Inl NotImplementedError \<longleftrightarrow>
     g \<notin> {PStr ''sigmoid'', PStr ''hardsigmoid'', PStr ''fusion''} \<or>
     m \<notin> {PStr ''indep'', PStr ''block''}"
proof (cases "select_hard_sigmoid g")
  case (Inl e)
  with rb ci at have "main_config F load now parsed = Inl e"
    by (simp add: main_config_def getattr_def Let_def split del: if_split)
  with Inl show ?thesis by (simp add: select_hard_sigmoid_Inl)
next
  case (Inr hs)
  then have g: "g \<in> {PStr ''sigmoid'', PStr ''hardsigmoid'', PStr ''fusion''}"
    by (auto simp: select_hard_sigmoid_Inr)
  let ?b = "if eq_zero F b then PNone else b"
  show ?thesis
  proof (cases "make_mask_str F m p h ?b")
    case (Inl e)
    with Inr rb ci at have "main_config F load now parsed = Inl e"
      by (simp add: main_config_def getattr_def Let_def split del: if_split)
    with Inl g make_mask_str_NotImplemented [of F m p h ?b] show ?thesis
      by (auto simp: eq_str_def)
  next
    case ms: (Inr s)
    then have m: "m \<in> {PStr ''indep'', PStr ''block''}"
      using make_mask_str_Inr [of F m p h ?b s] by (auto simp: eq_str_def)
    from Inr ms rb ci at have "main_config F load now parsed =
        andthen (run_name F now args s) (\<lambda>path.
        andthen (getattr args ''resume'') (\<lambda>resume.
          Inr \<lparr> v_args = args, v_checkpoint = ck, v_mask = m,
                v_obs_prob = p, v_obs_prob_high = h,
                v_block_len = ?b, v_hard_sigmoid = hs,
                v_mask_str = s, v_path = path,
                v_output_dir =
                  (if \<not> truthy F resume
                   then Some (Div (Div (Path ''results'') ''celeba'') path)
                   else od) \<rparr>))"
      by (simp add: main_config_def getattr_def Let_def split del: if_split)
    then have "main_config F load now parsed \<noteq> Inl NotImplementedError"
      by (simp add: andthen_Inl_iff run_name_not_NotImplemented getattr_not_NotImplemented
          split del: if_split)
    with g m show ?thesis by simp
  qed
qed

section \<open>When main raises NotImplementedError\<close>

text \<open>
  Claim C7, as the code has it. For a namespace with every attribute of the parser, once
  the resume block and the assertion of lines 77 and 78 have passed, main raises
  NotImplementedError exactly when \<^verbatim>\<open>args.maskgen\<close> is none of \<^verbatim>\<open>'sigmoid'\<close>,
  \<^verbatim>\<open>'hardsigmoid'\<close>, \<^verbatim>\<open>'fusion'\<close> or \<^verbatim>\<open>args.mask\<close> is none of \<^verbatim>\<open>'indep'\<close>, \<^verbatim>\<open>'block'\<close>;
  nothing has been constructed when it does; and when the configuration part succeeds,
  \<^verbatim>\<open>hard_sigmoid\<close> is \<^verbatim>\<open>False\<close> for \<^verbatim>\<open>'sigmoid'\<close>, \<^verbatim>\<open>True\<close> for \<^verbatim>\<open>'hardsigmoid'\<close> and the
  pair \<^verbatim>\<open>(-.1, 1.1)\<close> for \<^verbatim>\<open>'fusion'\<close>.
\<close>

theorem NotImplementedError_iff:
  "complete parsed \<and> resume_block F load parsed = Inr (args, od, ck) \<and>
   check_imputeronly F args = Inr () \<longrightarrow>
     ((snd (main F load now parsed) = Inl NotImplementedError) =
        (args ''maskgen'' \<notin>
           {Some (PStr ''sigmoid''), Some (PStr ''hardsigmoid''), Some (PStr ''fusion'')} \<or>
         args ''mask'' \<notin> {Some (PStr ''indep''), Some (PStr ''block'')})) \<and>
     (snd (main F load now parsed) = Inl NotImplementedError \<longrightarrow>
        fst (main F load now parsed) = []) \<and>
     (\<forall>L. main_config F load now parsed = Inr L \<longrightarrow>
        (args ''maskgen'' = Some (PStr ''sigmoid'') \<and> v_hard_sigmoid L = HardBool False) \<or>
        (args ''maskgen'' = Some (PStr ''hardsigmoid'') \<and> v_hard_sigmoid L = HardBool True) \<or>
        (args ''maskgen'' = Some (PStr ''fusion'') \<and>
           v_hard_sigmoid L = HardRange (Tenths (- 1)) (Tenths 11)))"
proof (intro impI, elim conjE)
  assume c: "complete parsed" and rb: "resume_block F load parsed = Inr (args, od, ck)"
    and ci: "check_imputeronly F args = Inr ()"
  from resume_block_complete [OF c rb] have "complete args" .
  from complete_attrs [OF this] obtain m p h b g where
    at: "args ''mask'' = Some m" "args ''obs_prob'' = Some p"
      "args ''obs_prob_high'' = Some h" "args ''block_len'' = Some b"
      "args ''maskgen'' = Some g"
    by blast
  have 1: "(snd (main F load now parsed) = Inl NotImplementedError) =
        (args ''maskgen'' \<notin>
           {Some (PStr ''sigmoid''), Some (PStr ''hardsigmoid''), Some (PStr ''fusion'')} \<or>
         args ''mask'' \<notin> {Some (PStr ''indep''), Some (PStr ''block'')})"
    using main_config_NotImplemented [OF rb ci at] at
    by (simp add: main_snd_NotImplemented)
  have 2: "snd (main F load now parsed) = Inl NotImplementedError \<longrightarrow>
        fst (main F load now parsed) = []"
    by (simp add: main_fst)
  have 3: "\<forall>L. main_config F load now parsed = Inr L \<longrightarrow>
        (args ''maskgen'' = Some (PStr ''sigmoid'') \<and> v_hard_sigmoid L = HardBool False) \<or>
        (args ''maskgen'' = Some (PStr ''hardsigmoid'') \<and> v_hard_sigmoid L = HardBool True) \<or>
        (args ''maskgen'' = Some (PStr ''fusion'') \<and>
           v_hard_sigmoid L = HardRange (Tenths (- 1)) (Tenths 11))"
  proof (intro allI impI)
    fix L assume "main_config F load now parsed = Inr L"
    from main_config_Inr [OF this] rb obtain g' where
      "args ''maskgen'' = Some g'" "select_hard_sigmoid g' = Inr (v_hard_sigmoid L)"
      by auto
    then show "(args ''maskgen'' = Some (PStr ''sigmoid'') \<and> v_hard_sigmoid L = HardBool False) \<or>
        (args ''maskgen'' = Some (PStr ''hardsigmoid'') \<and> v_hard_sigmoid L = HardBool True) \<or>
        (args ''maskgen'' = Some (PStr ''fusion'') \<and>
           v_hard_sigmoid L = HardRange (Tenths (- 1)) (Tenths 11))"
      by (auto simp: select_hard_sigmoid_Inr)
  qed
  from 1 2 3 show "((snd (main F load now parsed) = Inl NotImplementedError) =
        (args ''maskgen'' \<notin>
           {Some (PStr ''sigmoid''), Some (PStr ''hardsigmoid''), Some (PStr ''fusion'')} \<or>
         args ''mask'' \<notin> {Some (PStr ''indep''), Some (PStr ''block'')})) \<and>
     (snd (main F load now parsed) = Inl NotImplementedError \<longrightarrow>
        fst (main F load now parsed) = []) \<and>
     (\<forall>L. main_config F load now parsed = Inr L \<longrightarrow>
        (args ''maskgen'' = Some (PStr ''sigmoid'') \<and> v_hard_sigmoid L = HardBool False) \<or>
        (args ''maskgen'' = Some (PStr ''hardsigmoid'') \<and> v_hard_sigmoid L = HardBool True) \<or>
        (args ''maskgen'' = Some (PStr ''fusion'') \<and>
           v_hard_sigmoid L = HardRange (Tenths (- 1)) (Tenths 11)))"
    by (intro conjI)
qed

lemma complete_no_flags: "complete no_flags"
  by (simp add: complete_def no_flags_def parser_arguments_def dest_def)

lemma complete_upd: "complete args \<Longrightarrow> complete (args(k \<mapsto> v))"
  by (simp add: complete_def)

lemma no_flags_attrs:
  "no_flags ''imputeronly'' = Some (PBool False)"
  "no_flags ''mask'' = Some (PStr ''block'')"
  "no_flags ''maskgen'' = Some (PStr ''fusion'')"
  by (simp_all add: no_flags_def parser_arguments_def dest_def)

lemma main_config_Inl: "main_config F load now parsed = Inl e \<Longrightarrow> main F load now parsed = ([], Inl e)"
  by (simp add: main_def)

theorem NotImplementedError_iff_witness:
  "snd (main literal_floats load_fails ''0101.000000'' (no_flags(''maskgen'' \<mapsto> PStr ''foo'')))
     = Inl NotImplementedError \<and>
   fst (main literal_floats load_fails ''0101.000000'' (no_flags(''maskgen'' \<mapsto> PStr ''foo'')))
     = [] \<and>
   snd (main literal_floats load_fails ''0101.000000'' (no_flags(''mask'' \<mapsto> PStr ''foo'')))
     = Inl NotImplementedError \<and>
   snd (main literal_floats load_fails ''0101.000000'' no_flags) \<noteq> Inl NotImplementedError \<and>
   map_sum id v_hard_sigmoid (main_config literal_floats load_fails ''0101.000000'' no_flags)
     = Inr (HardRange (Tenths (- 1)) (Tenths 11))"
proof -
  let ?F = literal_floats and ?now = "''0101.000000''"
  let ?X = "no_flags(''maskgen'' \<mapsto> PStr ''foo'')"
  let ?Y = "no_flags(''mask'' \<mapsto> PStr ''foo'')"
  have hX: "complete ?X \<and> resume_block ?F load_fails ?X = Inr (?X, None, None) \<and>
     check_imputeronly ?F ?X = Inr ()"
    by (simp add: complete_upd complete_no_flags resume_block_not_set no_flags_resume
        check_imputeronly_def getattr_def no_flags_attrs)
  have hY: "complete ?Y \<and> resume_block ?F load_fails ?Y = Inr (?Y, None, None) \<and>
     check_imputeronly ?F ?Y = Inr ()"
    by (simp add: complete_upd complete_no_flags resume_block_not_set no_flags_resume
        check_imputeronly_def getattr_def no_flags_attrs)
  have hZ: "complete no_flags \<and>
     resume_block ?F load_fails no_flags = Inr (no_flags, None, None) \<and>
     check_imputeronly ?F no_flags = Inr ()"
    by (simp add: complete_no_flags resume_block_not_set no_flags_resume
        check_imputeronly_def getattr_def no_flags_attrs)
  note TX = NotImplementedError_iff [of ?X ?F load_fails ?X None None ?now, THEN mp, OF hX]
  note TY = NotImplementedError_iff [of ?Y ?F load_fails ?Y None None ?now, THEN mp, OF hY]
  note TZ = NotImplementedError_iff [of no_flags ?F load_fails no_flags None None ?now,
      THEN mp, OF hZ]
  from TX have 1: "snd (main ?F load_fails ?now ?X) = Inl NotImplementedError" by simp
  with TX have 2: "fst (main ?F load_fails ?now ?X) = []" by blast
  from TY have 3: "snd (main ?F load_fails ?now ?Y) = Inl NotImplementedError" by simp
  from TZ have 4: "snd (main ?F load_fails ?now no_flags) \<noteq> Inl NotImplementedError"
    by (simp add: no_flags_attrs)
  have "\<not> isl (main_config ?F load_fails ?now no_flags)" by code_simp
  then obtain L where L: "main_config ?F load_fails ?now no_flags = Inr L"
    using not_isl_Inr by blast
  with TZ have "v_hard_sigmoid L = HardRange (Tenths (- 1)) (Tenths 11)"
    by (simp add: no_flags_attrs)
  with L have 5: "map_sum id v_hard_sigmoid (main_config ?F load_fails ?now no_flags)
     = Inr (HardRange (Tenths (- 1)) (Tenths 11))" by simp
  from 1 2 3 4 5 show ?thesis by (intro conjI)
qed

text \<open>
  With \<^verbatim>\<open>--imputeronly\<close>, no \<^verbatim>\<open>--pretrain\<close> and \<^verbatim>\<open>--maskgen foo\<close> the assertion of line 78
  fails first: main raises AssertionError, not NotImplementedError.
\<close>

theorem assertion_first_counterexample:
  "main literal_floats load_fails ''0101.000000''
     (no_flags(''imputeronly'' \<mapsto> PBool True, ''maskgen'' \<mapsto> PStr ''foo''))
   = ([], Inl AssertionError)"
  by (rule main_config_Inl)
    (simp add: main_config_def resume_block_def check_imputeronly_def getattr_def
      no_flags_def parser_arguments_def dest_def)




section \<open>main loads the checkpoint itself\<close>






section \<open>The modules of the wiring code\<close>



section \<open>The flags of the parser\<close>

text \<open>
  Claim C8. The parser registers 22 flags, each under an attribute of its own: about 20,
  within two of it.
\<close>

theorem parser_flag_count:
  "length parser_arguments = 22 \<and>
   distinct (map (dest \<circ> fst) parser_arguments) \<and>
   \<bar>int (length parser_arguments) - 20\<bar> \<le> 2"
  by (simp add: parser_arguments_def dest_def)

section \<open>Runs that stop before the wiring and the call\<close>

text \<open>
  Claim C6 at the command line \<^verbatim>\<open>--mask indep\<close>: main ends with a NameError at line 120,
  with no module constructed and nothing passed to \<^verbatim>\<open>misgan_impute\<close>.
\<close>

theorem wiring_not_reached:
  "main literal_floats load_fails ''0101.000000'' (no_flags(''mask'' \<mapsto> PStr ''indep''))
     = ([], Inl (NameError ''IndepMaskedCelebA''))"
proof -
  let ?c = "main_config literal_floats load_fails ''0101.000000''
     (no_flags(''mask'' \<mapsto> PStr ''indep''))"
  have "\<not> isl ?c" by code_simp
  then obtain L where L: "?c = Inr L" using not_isl_Inr by blast
  have "map_sum id v_mask ?c = Inr (PStr ''indep'')" by code_simp
  with L have "v_mask L = PStr ''indep''" by simp
  with main_after_config [OF L] show ?thesis by (simp add: eq_str_def)
qed

text \<open>
  Claim C9 at the command line \<^verbatim>\<open>--block-len 0\<close>: main ends with a NameError at line 124
  and never calls \<^verbatim>\<open>misgan_impute\<close>.
\<close>

theorem call_not_reached:
  "main literal_floats load_fails ''0101.000000'' (no_flags(''block_len'' \<mapsto> PInt 0))
     = ([], Inl (NameError ''BlockMaskedCelebA''))"
proof -
  let ?c = "main_config literal_floats load_fails ''0101.000000''
     (no_flags(''block_len'' \<mapsto> PInt 0))"
  have "\<not> isl ?c" by code_simp
  then obtain L where L: "?c = Inr L" using not_isl_Inr by blast
  have "map_sum id v_mask ?c = Inr (PStr ''block'')" by code_simp
  with L have "v_mask L = PStr ''block''" by simp
  with main_after_config [OF L] show ?thesis by (simp add: eq_str_def)
qed

end
